theory Spec2Isabelle
  imports Main
begin

section \<open>The session gateway of server.ts\<close>

text \<open>
  The development follows the multi-session server (the TypeScript program whose
  text starts after the container recipe in \<^verbatim>\<open>src/Dockerfile\<close>): the registry
  \<^verbatim>\<open>sessions\<close>, the legacy globals, \<^verbatim>\<open>sendWebhook\<close>,
  \<^verbatim>\<open>initializeWhatsApp\<close> with the three socket event handlers it registers,
  and the session routes.

  JavaScript objects are shared by reference: the handlers registered by one call of
  \<^verbatim>\<open>initializeWhatsApp\<close> keep mutating the \<^verbatim>\<open>session\<close> object of that call, also
  after the registry has dropped it or maps the same id to a younger object.  Session
  objects therefore live in a store indexed by references, and the registry maps ids to
  references.  Each call of \<^verbatim>\<open>initializeWhatsApp\<close> that gets as far as
  \<^verbatim>\<open>makeWASocket\<close> creates one socket and one session object; both carry the same
  number.

  Every handler runs to completion as one step: the points where an \<^verbatim>\<open>await\<close> lets
  other handlers run in between are not modelled.  All readings of the clock inside one
  handler give the same value \<open>now\<close>.  Calls of \<^verbatim>\<open>console.log\<close> are left out; the
  calls of \<^verbatim>\<open>logger.info\<close>, \<^verbatim>\<open>logger.error\<close> and \<^verbatim>\<open>console.error\<close> are kept.
  The routes that send messages, upload media or ask for a pairing code, and the
  \<^verbatim>\<open>SIGTERM\<close> handler, write neither the registry, the session records, the
  globals nor the webhook configuration, and are left out as well.
\<close>

subsection \<open>Values exchanged with the transport\<close>

text \<open>An error value: a plain \<^verbatim>\<open>Error\<close> with its message, or a \<^verbatim>\<open>Boom\<close> with its
  message and \<^verbatim>\<open>output.statusCode\<close>.\<close>

datatype js_error = Error string | Boom string int

text \<open>\<^verbatim>\<open>(e as Boom)?.output?.statusCode\<close>: undefined unless the error has an output.\<close>

fun statusCode :: "js_error option \<Rightarrow> int option" where
  "statusCode None = None"
| "statusCode (Some (Error m)) = None"
| "statusCode (Some (Boom m c)) = Some c"

record LastDisconnect =
  error :: "js_error option"
  date :: nat

datatype WAConnectionState = Open | Connecting | Close

text \<open>The fields of a \<^verbatim>\<open>connection.update\<close> that the handler destructures.\<close>

record ConnectionState =
  connection :: "WAConnectionState option"
  lastDisconnect :: "LastDisconnect option"
  qr :: "string option"

text \<open>\<^verbatim>\<open>lastDisconnect?.error\<close>\<close>

definition lastDisconnect_error :: "ConnectionState \<Rightarrow> js_error option" where
  "lastDisconnect_error u = (case lastDisconnect u of None \<Rightarrow> None | Some ld \<Rightarrow> error ld)"

text \<open>\<^verbatim>\<open>if (qr)\<close>: a string is truthy unless it is empty.\<close>

definition truthy :: "string option \<Rightarrow> bool" where
  "truthy s = (case s of None \<Rightarrow> False | Some q \<Rightarrow> q \<noteq> [])"

text \<open>The string held by a field that has been found truthy.\<close>

fun string_of :: "string option \<Rightarrow> string" where
  "string_of (Some q) = q"
| "string_of None = []"

text \<open>The body of a message and a status update are only tested for presence and
  forwarded, so they stay uninterpreted text.\<close>

type_synonym IMessage = string
type_synonym WAMessageUpdate = string

record WAMessageKey =
  remoteJid :: "string option"
  fromMe :: "bool option"
  key_id :: "string option"

record WAMessage =
  key :: WAMessageKey
  message :: "IMessage option"
  messageTimestamp :: "int option"
  pushName :: "string option"

subsection \<open>Session records, webhook envelopes, observable effects\<close>

record Session =
  id_s :: string
  sock :: "nat option"
  qrCode :: "string option"
  status :: string
  createdAt :: nat

text \<open>The object literals passed as \<^verbatim>\<open>data\<close> at the five call sites of
  \<^verbatim>\<open>sendWebhook\<close>.\<close>

datatype webhook_data =
    QrData string
  | ReasonData "js_error option"
  | SessionIdData string
  | MessageData WAMessageKey "IMessage option" "int option" "string option"
  | UpdateData WAMessageUpdate

record payload =
  sessionId :: string
  event :: string
  data :: webhook_data
  timestamp :: string

datatype http_outcome = Response nat | TimedOut | ConnectionRefused

text \<open>\<^verbatim>\<open>axios.post\<close> resolves on a 2xx answer and rejects otherwise.\<close>

fun axios_post :: "http_outcome \<Rightarrow> js_error option" where
  "axios_post (Response c) =
     (if 200 \<le> c \<and> c < 300 then None else Some (Error ''Request failed with status code''))"
| "axios_post TimedOut = Some (Error ''timeout of 5000ms exceeded'')"
| "axios_post ConnectionRefused = Some (Error ''connect ECONNREFUSED'')"

text \<open>The observable effects.  \<open>AxiosPost url data body headers timeout\<close> is the call
  \<^verbatim>\<open>axios.post(url, data, {headers, timeout})\<close> together with the text that goes on
  the wire: for a plain object axios sends \<^verbatim>\<open>JSON.stringify(data)\<close> as the body.\<close>

datatype effect =
    AxiosPost string payload string "(string \<times> string) list" nat
  | LoggerInfo string string string
  | LoggerError js_error string string string
  | ConsoleError string js_error
  | SetTimeout string nat
  | UseMultiFileAuthState string
  | MakeWASocket nat string
  | Logout nat
  | UnhandledRejection js_error

text \<open>What the program takes from its libraries and from the network: the numeric value
  of \<^verbatim>\<open>DisconnectReason.loggedOut\<close>, \<^verbatim>\<open>JSON.stringify\<close> on an envelope,
  \<^verbatim>\<open>toISOString\<close>, and the fate of the HTTP request that is entered at a given
  position of the effect trace.  The envelopes built here are finite trees of strings
  and numbers, on which \<^verbatim>\<open>JSON.stringify\<close> returns a text.\<close>

record world =
  loggedOut :: int
  stringify :: "payload \<Rightarrow> string"
  toISOString :: "nat \<Rightarrow> string"
  network :: "nat \<Rightarrow> http_outcome"

record server =
  sessions :: "string \<rightharpoonup> nat"
  heap :: "nat \<Rightarrow> Session"
  next_ref :: nat
  sock_g :: "nat option"
  qrCode_g :: "string option"
  connectionStatus :: string
  WEBHOOK_url :: string
  WEBHOOK_secret :: string
  timers :: "string list"
  effects :: "effect list"

definition blank :: Session where
  "blank = \<lparr>id_s = [], sock = None, qrCode = None, status = [], createdAt = 0\<rparr>"

text \<open>The state after the module has been loaded, for a given webhook configuration.\<close>

definition boot :: "string \<Rightarrow> string \<Rightarrow> server" where
  "boot u s =
     \<lparr>sessions = Map.empty, heap = (\<lambda>r. blank), next_ref = 0,
      sock_g = None, qrCode_g = None, connectionStatus = ''disconnected'',
      WEBHOOK_url = u, WEBHOOK_secret = s, timers = [], effects = []\<rparr>"

definition emit :: "effect \<Rightarrow> server \<Rightarrow> server" where
  "emit e st = st\<lparr>effects := effects st @ [e]\<rparr>"

subsection \<open>HMAC-SHA256\<close>

text \<open>
  \<^verbatim>\<open>crypto.createHmac('sha256', key).update(text).digest('hex')\<close> is a primitive of
  the platform.  It is written out here after FIPS 180-4 (SHA-256) and RFC 2104 (HMAC),
  on the bytes of key and text (a string of the model is the list of the bytes of its
  UTF-8 encoding, which is what the platform hashes), with 32-bit words as integers
  below \<open>2 ^ 32\<close> and every addition reduced modulo \<open>2 ^ 32\<close>.
\<close>

unbundle bit_operations_syntax

text \<open>The round constants and the initial hash value of SHA-256, written in decimal.\<close>

definition K256 :: "int list" where
  "K256 =
     [1116352408, 1899447441, 3049323471, 3921009573,
      961987163, 1508970993, 2453635748, 2870763221,
      3624381080, 310598401, 607225278, 1426881987,
      1925078388, 2162078206, 2614888103, 3248222580,
      3835390401, 4022224774, 264347078, 604807628,
      770255983, 1249150122, 1555081692, 1996064986,
      2554220882, 2821834349, 2952996808, 3210313671,
      3336571891, 3584528711, 113926993, 338241895,
      666307205, 773529912, 1294757372, 1396182291,
      1695183700, 1986661051, 2177026350, 2456956037,
      2730485921, 2820302411, 3259730800, 3345764771,
      3516065817, 3600352804, 4094571909, 275423344,
      430227734, 506948616, 659060556, 883997877,
      958139571, 1322822218, 1537002063, 1747873779,
      1955562222, 2024104815, 2227730452, 2361852424,
      2428436474, 2756734187, 3204031479, 3329325298]"

definition H256 :: "int list" where
  "H256 =
     [1779033703, 3144134277, 1013904242, 2773480762,
      1359893119, 2600822924, 528734635, 1541459225]"

definition add32 :: "int \<Rightarrow> int \<Rightarrow> int" where
  "add32 x y = (x + y) mod 4294967296"

definition rotr :: "nat \<Rightarrow> int \<Rightarrow> int" where
  "rotr n x = x div 2 ^ n + (x mod 2 ^ n) * 2 ^ (32 - n)"

definition shr :: "nat \<Rightarrow> int \<Rightarrow> int" where
  "shr n x = x div 2 ^ n"

definition Ch :: "int \<Rightarrow> int \<Rightarrow> int \<Rightarrow> int" where
  "Ch x y z = (x AND y) XOR ((4294967295 - x) AND z)"

definition Maj :: "int \<Rightarrow> int \<Rightarrow> int \<Rightarrow> int" where
  "Maj x y z = (x AND y) XOR (x AND z) XOR (y AND z)"

definition bsig0 :: "int \<Rightarrow> int" where
  "bsig0 x = rotr 2 x XOR rotr 13 x XOR rotr 22 x"

definition bsig1 :: "int \<Rightarrow> int" where
  "bsig1 x = rotr 6 x XOR rotr 11 x XOR rotr 25 x"

definition ssig0 :: "int \<Rightarrow> int" where
  "ssig0 x = rotr 7 x XOR rotr 18 x XOR shr 3 x"

definition ssig1 :: "int \<Rightarrow> int" where
  "ssig1 x = rotr 17 x XOR rotr 19 x XOR shr 10 x"

text \<open>The \<open>n\<close> bytes of a number, most significant first.\<close>

definition be_bytes :: "nat \<Rightarrow> int \<Rightarrow> int list" where
  "be_bytes n x = map (\<lambda>i. (x div 256 ^ i) mod 256) (rev [0..<n])"

text \<open>Padding: the byte \<open>0x80\<close>, zeros up to 56 modulo 64, the length in bits as
  eight bytes.\<close>

definition pad :: "int list \<Rightarrow> int list" where
  "pad m = m @ [128] @ replicate ((119 - length m mod 64) mod 64) 0
             @ be_bytes 8 (8 * int (length m))"

fun be_words :: "int list \<Rightarrow> int list" where
  "be_words (a # b # c # d # bs) = (((a * 256 + b) * 256 + c) * 256 + d) # be_words bs"
| "be_words bs = []"

text \<open>The message schedule: \<open>n\<close> more words after the ones in \<open>ws\<close>.\<close>

fun schedule :: "nat \<Rightarrow> int list \<Rightarrow> int list" where
  "schedule 0 ws = ws"
| "schedule (Suc n) ws =
     schedule n (ws @ [add32 (add32 (ssig1 (ws ! (length ws - 2))) (ws ! (length ws - 7)))
                         (add32 (ssig0 (ws ! (length ws - 15))) (ws ! (length ws - 16)))])"

fun sha_round :: "int list \<Rightarrow> int \<times> int \<Rightarrow> int list" where
  "sha_round [a, b, c, d, e, f, g, h] (k, w) =
     (let t1 = add32 (add32 (add32 h (bsig1 e)) (add32 (Ch e f g) k)) w;
          t2 = add32 (bsig0 a) (Maj a b c)
      in [add32 t1 t2, a, b, c, add32 d t1, e, f, g])"
| "sha_round s kw = s"

definition compress :: "int list \<Rightarrow> int list \<Rightarrow> int list" where
  "compress hs block =
     map2 add32 hs (foldl sha_round hs (zip K256 (schedule 48 (be_words block))))"

fun blocks :: "nat \<Rightarrow> int list \<Rightarrow> int list list" where
  "blocks 0 bs = []"
| "blocks (Suc n) bs = take 64 bs # blocks n (drop 64 bs)"

definition sha256 :: "int list \<Rightarrow> int list" where
  "sha256 m =
     concat (map (be_bytes 4) (foldl compress H256 (blocks (length (pad m) div 64) (pad m))))"

definition hmac_sha256 :: "int list \<Rightarrow> int list \<Rightarrow> int list" where
  "hmac_sha256 k m =
     (let k0 = (if 64 < length k then sha256 k else k);
          k1 = k0 @ replicate (64 - length k0) 0
      in sha256 (map (\<lambda>b. b XOR 92) k1 @ sha256 (map (\<lambda>b. b XOR 54) k1 @ m)))"

definition hex_digit :: "int \<Rightarrow> char" where
  "hex_digit d = (if d < 10 then char_of (48 + d) else char_of (87 + d))"

definition hex :: "int list \<Rightarrow> string" where
  "hex bs = concat (map (\<lambda>b. [hex_digit (b div 16), hex_digit (b mod 16)]) bs)"

definition bytes :: "string \<Rightarrow> int list" where
  "bytes s = map of_char s"

definition hmac_sha256_hex :: "string \<Rightarrow> string \<Rightarrow> string" where
  "hmac_sha256_hex k m = hex (hmac_sha256 (bytes k) (bytes m))"

subsection \<open>sendWebhook\<close>

text \<open>The body of the \<^verbatim>\<open>try\<close> block: a rejected request leaves the block with the
  error, after the request has been made.\<close>

definition sendWebhook_try ::
  "world \<Rightarrow> nat \<Rightarrow> string \<Rightarrow> webhook_data \<Rightarrow> string \<Rightarrow> server \<Rightarrow> (js_error \<times> server) + server" where
  "sendWebhook_try W now ev dat sid st =
     (let p = \<lparr>sessionId = sid, event = ev, data = dat, timestamp = toISOString W now\<rparr>;
          signature = hmac_sha256_hex (WEBHOOK_secret st) (stringify W p);
          fate = network W (length (effects st));
          st1 = emit (AxiosPost (WEBHOOK_url st) p (stringify W p)
                  [(''Content-Type'', ''application/json''), (''x-webhook-signature'', signature)]
                  5000) st
      in case axios_post fate of
           Some e \<Rightarrow> Inl (e, st1)
         | None \<Rightarrow> Inr (emit (LoggerInfo ev sid ''Webhook sent successfully'') st1))"

definition sendWebhook ::
  "world \<Rightarrow> nat \<Rightarrow> string \<Rightarrow> webhook_data \<Rightarrow> string \<Rightarrow> server \<Rightarrow> (js_error \<times> server) + server" where
  "sendWebhook W now ev dat sid st =
     (case sendWebhook_try W now ev dat sid st of
        Inr st' \<Rightarrow> Inr st'
      | Inl (e, st') \<Rightarrow> Inr (emit (LoggerError e ev sid ''Failed to send webhook'') st'))"

subsection \<open>initializeWhatsApp and the handlers it registers\<close>

text \<open>\<open>fault\<close> is the error, if any, with which loading the credentials, fetching the
  version or creating the socket fails; all three come before the registry is touched.\<close>

definition authFolder :: "string \<Rightarrow> string" where
  "authFolder sid = (if sid = ''default'' then ''baileys_auth_info'' else ''baileys_auth_'' @ sid)"

definition initializeWhatsApp ::
  "nat \<Rightarrow> js_error option \<Rightarrow> string \<Rightarrow> server \<Rightarrow> (js_error \<times> server) + (nat \<times> server)" where
  "initializeWhatsApp now fault sid st =
     (let st0 = emit (UseMultiFileAuthState (authFolder sid)) st
      in case fault of
           Some e \<Rightarrow> Inl (e, st0)
         | None \<Rightarrow>
             let socket = next_ref st0;
                 session = \<lparr>id_s = sid, sock = Some socket, qrCode = None,
                            status = ''connecting'', createdAt = now\<rparr>;
                 st1 = emit (MakeWASocket socket (authFolder sid)) st0;
                 st2 = st1\<lparr>heap := (heap st1)(socket := session), next_ref := Suc socket\<rparr>;
                 st3 = st2\<lparr>sessions := (sessions st2)(sid \<mapsto> socket)\<rparr>;
                 st4 = (if sid = ''default'' then st3\<lparr>sock_g := Some socket\<rparr> else st3)
             in Inr (socket, st4))"

text \<open>The \<^verbatim>\<open>connection.update\<close> handler of the call with id \<open>sid\<close> and session
  object \<open>r\<close>.\<close>

definition connection_update ::
  "world \<Rightarrow> nat \<Rightarrow> string \<Rightarrow> nat \<Rightarrow> ConnectionState \<Rightarrow> server \<Rightarrow> (js_error \<times> server) + server" where
  "connection_update W now sid r u st =
     (case (if truthy (qr u)
            then let a = st\<lparr>heap := (heap st)(r := (heap st r)\<lparr>qrCode := qr u\<rparr>)\<rparr>;
                     b = (if sid = ''default'' then a\<lparr>qrCode_g := qr u\<rparr> else a)
                 in sendWebhook W now ''qr'' (QrData (string_of (qr u))) sid b
            else Inr st) of
        Inl x \<Rightarrow> Inl x
      | Inr st1 \<Rightarrow>
          (case connection u of
             Some Close \<Rightarrow>
               let a = st1\<lparr>heap := (heap st1)(r := (heap st1 r)\<lparr>status := ''disconnected''\<rparr>)\<rparr>;
                   b = (if sid = ''default'' then a\<lparr>connectionStatus := ''disconnected''\<rparr> else a);
                   shouldReconnect = (statusCode (lastDisconnect_error u) \<noteq> Some (loggedOut W))
               in (case sendWebhook W now ''disconnected'' (ReasonData (lastDisconnect_error u)) sid b of
                     Inl x \<Rightarrow> Inl x
                   | Inr c \<Rightarrow>
                       if shouldReconnect
                       then Inr (emit (SetTimeout sid 3000) (c\<lparr>timers := timers c @ [sid]\<rparr>))
                       else Inr (c\<lparr>sessions := (sessions c)(sid := None)\<rparr>))
           | Some Open \<Rightarrow>
               let a = st1\<lparr>heap := (heap st1)(r := (heap st1 r)\<lparr>status := ''connected'', qrCode := None\<rparr>)\<rparr>;
                   b = (if sid = ''default''
                        then a\<lparr>connectionStatus := ''connected'', qrCode_g := None\<rparr> else a)
               in sendWebhook W now ''connected'' (SessionIdData sid) sid b
           | Some Connecting \<Rightarrow>
               let a = st1\<lparr>heap := (heap st1)(r := (heap st1 r)\<lparr>status := ''connecting''\<rparr>)\<rparr>;
                   b = (if sid = ''default'' then a\<lparr>connectionStatus := ''connecting''\<rparr> else a)
               in Inr b
           | None \<Rightarrow> Inr st1))"

text \<open>The \<^verbatim>\<open>messages.upsert\<close> handler: the loop over \<^verbatim>\<open>event.messages\<close>.\<close>

fun messages_upsert ::
  "world \<Rightarrow> nat \<Rightarrow> string \<Rightarrow> WAMessage list \<Rightarrow> server \<Rightarrow> (js_error \<times> server) + server" where
  "messages_upsert W now sid [] st = Inr st"
| "messages_upsert W now sid (m # ms) st =
     (if fromMe (key m) \<noteq> Some True \<and> message m \<noteq> None
      then (case sendWebhook W now ''message''
                   (MessageData (key m) (message m) (messageTimestamp m) (pushName m)) sid st of
              Inl x \<Rightarrow> Inl x
            | Inr st' \<Rightarrow> messages_upsert W now sid ms st')
      else messages_upsert W now sid ms st)"

text \<open>The \<^verbatim>\<open>messages.update\<close> handler.\<close>

fun messages_update ::
  "world \<Rightarrow> nat \<Rightarrow> string \<Rightarrow> WAMessageUpdate list \<Rightarrow> server \<Rightarrow> (js_error \<times> server) + server" where
  "messages_update W now sid [] st = Inr st"
| "messages_update W now sid (x # xs) st =
     (case sendWebhook W now ''status'' (UpdateData x) sid st of
        Inl e \<Rightarrow> Inl e
      | Inr st' \<Rightarrow> messages_update W now sid xs st')"

subsection \<open>Routes\<close>

datatype body =
    ErrorBody string
  | CreatedBody string string string
  | SuccessBody
  | RegisteredBody string "string list"
  | QrBody string
  | SessionStatusBody string bool string bool nat
  | StatusBody bool string bool

type_synonym response = "nat \<times> body"

text \<open>Decimal digits of a number, for the template \<^verbatim>\<open>session_${Date.now()}\<close>.\<close>

fun decimal :: "nat \<Rightarrow> string" where
  "decimal n =
     (if n < 10 then [char_of (48 + n)] else decimal (n div 10) @ [char_of (48 + n mod 10)])"

declare decimal.simps [simp del]

text \<open>\<^verbatim>\<open>POST /api/sessions/create\<close>; \<open>requested\<close> is the \<^verbatim>\<open>sessionId\<close> of the request
  body, if it has one.\<close>

definition create_session ::
  "world \<Rightarrow> nat \<Rightarrow> js_error option \<Rightarrow> string option \<Rightarrow> server \<Rightarrow> response \<times> server" where
  "create_session W now fault requested st =
     (let sid = (case requested of Some s \<Rightarrow> s | None \<Rightarrow> ''session_'' @ decimal now)
      in if sessions st sid \<noteq> None
         then ((409, ErrorBody ''Session already exists''), st)
         else (case initializeWhatsApp now fault sid st of
                 Inr (socket, st') \<Rightarrow>
                   ((200, CreatedBody sid ''initializing'' (toISOString W now)), st')
               | Inl (e, st') \<Rightarrow>
                   ((500, ErrorBody ''Failed to create session''),
                    emit (ConsoleError ''Error creating session:'' e) st')))"

text \<open>\<^verbatim>\<open>GET /api/sessions/:sessionId/qr\<close> and \<^verbatim>\<open>.../status\<close>\<close>

definition get_session_qr :: "string \<Rightarrow> server \<Rightarrow> response" where
  "get_session_qr sid st =
     (case sessions st sid of
        None \<Rightarrow> (404, ErrorBody ''Session not found'')
      | Some r \<Rightarrow>
          if \<not> truthy (qrCode (heap st r)) then (404, ErrorBody ''No QR code available'')
          else (200, QrBody (string_of (qrCode (heap st r)))))"

definition get_session_status :: "string \<Rightarrow> server \<Rightarrow> response" where
  "get_session_status sid st =
     (case sessions st sid of
        None \<Rightarrow> (404, ErrorBody ''Session not found'')
      | Some r \<Rightarrow>
          (200, SessionStatusBody sid (status (heap st r) = ''connected'') (status (heap st r))
                  (qrCode (heap st r) \<noteq> None) (createdAt (heap st r))))"

text \<open>\<^verbatim>\<open>DELETE /api/sessions/:sessionId\<close>; \<open>logout\<close> is the error, if any, that
  \<^verbatim>\<open>session.sock.logout()\<close> throws.\<close>

definition delete_session :: "js_error option \<Rightarrow> string \<Rightarrow> server \<Rightarrow> response \<times> server" where
  "delete_session logout sid st =
     (case sessions st sid of
        None \<Rightarrow> ((404, ErrorBody ''Session not found''), st)
      | Some r \<Rightarrow>
          (case sock (heap st r) of
             None \<Rightarrow> ((200, SuccessBody), st\<lparr>sessions := (sessions st)(sid := None)\<rparr>)
           | Some s \<Rightarrow>
               let st1 = emit (Logout s) st
               in (case logout of
                     Some e \<Rightarrow>
                       ((500, ErrorBody ''Failed to delete session''),
                        emit (ConsoleError ''Error deleting session:'' e) st1)
                   | None \<Rightarrow> ((200, SuccessBody), st1\<lparr>sessions := (sessions st1)(sid := None)\<rparr>))))"

text \<open>\<^verbatim>\<open>POST /api/webhook/register\<close>\<close>

definition register_webhook :: "string option \<Rightarrow> string option \<Rightarrow> server \<Rightarrow> response \<times> server" where
  "register_webhook u s st =
     (if \<not> truthy u then ((400, ErrorBody ''Webhook URL required''), st)
      else let st1 = st\<lparr>WEBHOOK_url := string_of u\<rparr>;
               st2 = (if truthy s then st1\<lparr>WEBHOOK_secret := string_of s\<rparr> else st1)
           in ((200, RegisteredBody (WEBHOOK_url st2)
                      [''message'', ''status'', ''qr'', ''connected'', ''disconnected'']), st2))"

text \<open>The legacy \<^verbatim>\<open>GET /status\<close> and \<^verbatim>\<open>GET /qr\<close> read the globals only.\<close>

definition get_status :: "server \<Rightarrow> response" where
  "get_status st =
     (200, StatusBody (connectionStatus st = ''connected'') (connectionStatus st) (qrCode_g st \<noteq> None))"

definition get_qr :: "server \<Rightarrow> response" where
  "get_qr st =
     (if \<not> truthy (qrCode_g st) then (404, ErrorBody ''No QR code available'')
      else (200, QrBody (string_of (qrCode_g st))))"

subsection \<open>The server as a transition system\<close>

text \<open>What can happen to a running server.  A socket event names the socket it comes
  from; a timer event names the id whose pending reconnect callback runs.  The events
  carry what the environment decides: the clock, and whether the transport calls fail.\<close>

datatype occurrence =
    Listen nat "js_error option"
  | PostCreate nat "js_error option" "string option"
  | DeleteSession "js_error option" string
  | RegisterWebhook "string option" "string option"
  | ConnectionUpdate nat nat ConnectionState
  | MessagesUpsert nat nat "WAMessage list"
  | MessagesUpdate nat nat "WAMessageUpdate list"
  | TimerFires nat "js_error option" string

text \<open>A rejected promise that nobody awaits is recorded and the state stays as it was
  when the error was thrown.\<close>

fun settle :: "(js_error \<times> server) + server \<Rightarrow> server" where
  "settle (Inr st) = st"
| "settle (Inl (e, st)) = emit (UnhandledRejection e) st"

definition step :: "world \<Rightarrow> occurrence \<Rightarrow> server \<Rightarrow> server" where
  "step W oc st =
     (case oc of
        Listen now fault \<Rightarrow>
          (case initializeWhatsApp now fault ''default'' st of
             Inr (socket, st') \<Rightarrow> st'
           | Inl (e, st') \<Rightarrow> emit (ConsoleError [] e) st')
      | PostCreate now fault requested \<Rightarrow> snd (create_session W now fault requested st)
      | DeleteSession logout sid \<Rightarrow> snd (delete_session logout sid st)
      | RegisterWebhook u s \<Rightarrow> snd (register_webhook u s st)
      | ConnectionUpdate now r u \<Rightarrow>
          (if r < next_ref st then settle (connection_update W now (id_s (heap st r)) r u st) else st)
      | MessagesUpsert now r ms \<Rightarrow>
          (if r < next_ref st then settle (messages_upsert W now (id_s (heap st r)) ms st) else st)
      | MessagesUpdate now r xs \<Rightarrow>
          (if r < next_ref st then settle (messages_update W now (id_s (heap st r)) xs st) else st)
      | TimerFires now fault sid \<Rightarrow>
          (if sid \<in> set (timers st)
           then (case initializeWhatsApp now fault sid
                        (st\<lparr>timers := remove1 sid (timers st)\<rparr>) of
                   Inr (socket, st') \<Rightarrow> st'
                 | Inl (e, st') \<Rightarrow> emit (UnhandledRejection e) st')
           else st))"

fun run :: "world \<Rightarrow> occurrence list \<Rightarrow> server \<Rightarrow> server" where
  "run W [] st = st"
| "run W (oc # ocs) st = run W ocs (step W oc st)"

text \<open>The occurrences that call \<^verbatim>\<open>initializeWhatsApp\<close> for a given id.\<close>

fun initializes :: "string \<Rightarrow> occurrence \<Rightarrow> bool" where
  "initializes sid (Listen now fault) = (sid = ''default'')"
| "initializes sid (PostCreate now fault requested) =
     (sid = (case requested of Some s \<Rightarrow> s | None \<Rightarrow> ''session_'' @ decimal now))"
| "initializes sid (TimerFires now fault sid') = (sid = sid')"
| "initializes sid oc = False"

text \<open>The envelopes of the requests in an effect trace, in order.\<close>

fun posted :: "effect list \<Rightarrow> payload list" where
  "posted [] = []"
| "posted (AxiosPost url p b hs t # es) = p # posted es"
| "posted (e # es) = posted es"

subsection \<open>Notions used in the statements\<close>

text \<open>The request that \<^verbatim>\<open>sendWebhook\<close> hands to \<^verbatim>\<open>axios.post\<close>, and the log line
  that follows it when the request has been entered at position \<open>k\<close> of the trace.\<close>

definition request :: "world \<Rightarrow> nat \<Rightarrow> string \<Rightarrow> webhook_data \<Rightarrow> string \<Rightarrow> server \<Rightarrow> effect" where
  "request W now ev dat sid st =
     AxiosPost (WEBHOOK_url st)
       \<lparr>sessionId = sid, event = ev, data = dat, timestamp = toISOString W now\<rparr>
       (stringify W \<lparr>sessionId = sid, event = ev, data = dat, timestamp = toISOString W now\<rparr>)
       [(''Content-Type'', ''application/json''),
        (''x-webhook-signature'',
         hmac_sha256_hex (WEBHOOK_secret st)
           (stringify W \<lparr>sessionId = sid, event = ev, data = dat, timestamp = toISOString W now\<rparr>))]
       5000"

definition delivery_log :: "world \<Rightarrow> string \<Rightarrow> string \<Rightarrow> nat \<Rightarrow> effect" where
  "delivery_log W ev sid k =
     (case axios_post (network W k) of
        None \<Rightarrow> LoggerInfo ev sid ''Webhook sent successfully''
      | Some e \<Rightarrow> LoggerError e ev sid ''Failed to send webhook'')"

text \<open>The state in which a handler that does not throw leaves the server.\<close>

fun state_of :: "(js_error \<times> server) + server \<Rightarrow> server" where
  "state_of (Inr st) = st"
| "state_of (Inl (e, st)) = st"

text \<open>The invariant of the data model: a record holds a QR code only while it is not
  connected.\<close>

definition qr_invariant :: "Session \<Rightarrow> bool" where
  "qr_invariant s = (qrCode s \<noteq> None \<longrightarrow> status s \<noteq> ''connected'')"

text \<open>A pairing artifact that reaches a socket whose record is already connected, in an
  update that carries no connection state.\<close>

fun qr_after_open :: "server \<Rightarrow> occurrence \<Rightarrow> bool" where
  "qr_after_open st (ConnectionUpdate now r u) =
     (r < next_ref st \<and> truthy (qr u) \<and> connection u = None \<and> status (heap st r) = ''connected'')"
| "qr_after_open st oc = False"

subsection \<open>Sample runs\<close>

text \<open>A concrete environment for evaluating runs.  The logout code is the one of the
  library.  The serializer writes the envelope as \<^verbatim>\<open>JSON.stringify\<close> does when no
  string in it needs an escape, the data of the \<open>qr\<close> and \<open>connected\<close> events
  included; the other data are written as an empty object.  The date format is a
  stand-in.  Every request is answered with 200.  In \<open>down_world\<close> every request
  times out.  In \<open>reference_world\<close> the clock reads the first millisecond of 2024.\<close>

fun sample_data :: "webhook_data \<Rightarrow> string" where
  \<open>sample_data (QrData q) = ''{"qr":"'' @ q @ ''"}''\<close>
| \<open>sample_data (SessionIdData s) = ''{"sessionId":"'' @ s @ ''"}''\<close>
| \<open>sample_data d = ''{}''\<close>

definition sample_stringify :: "payload \<Rightarrow> string" where
  \<open>sample_stringify p =
     ''{"sessionId":"'' @ sessionId p @ ''","event":"'' @ event p @ ''","data":''
     @ sample_data (data p) @ '',"timestamp":"'' @ timestamp p @ ''"}''\<close>

definition sample_world :: world where
  "sample_world =
     \<lparr>loggedOut = 401, stringify = sample_stringify, toISOString = decimal,
      network = (\<lambda>n. Response 200)\<rparr>"

definition down_world :: world where
  "down_world =
     \<lparr>loggedOut = 401, stringify = sample_stringify, toISOString = decimal,
      network = (\<lambda>n. TimedOut)\<rparr>"

definition reference_world :: world where
  "reference_world =
     \<lparr>loggedOut = 401, stringify = sample_stringify,
      toISOString = (\<lambda>t. ''2024-01-01T00:00:00.000Z''),
      network = (\<lambda>n. Response 200)\<rparr>"

text \<open>The text of the envelope of a \<open>qr\<close> event of session \<open>s1\<close> in
  \<open>reference_world\<close>, as \<^verbatim>\<open>JSON.stringify\<close> writes it.\<close>

definition reference_body :: string where
  \<open>reference_body =
     ''{"sessionId":"s1","event":"qr","data":{"qr":"2@ABC"},"timestamp":"2024-01-01T00:00:00.000Z"}''\<close>

definition sample_boot :: server where
  "sample_boot = boot ''http://consumer/hook'' ''secret''"

definition closed_by :: "js_error \<Rightarrow> ConnectionState" where
  "closed_by e =
     \<lparr>connection = Some Close, lastDisconnect = Some \<lparr>error = Some e, date = 0\<rparr>, qr = None\<rparr>"

definition entered :: "WAConnectionState \<Rightarrow> ConnectionState" where
  "entered c = \<lparr>connection = Some c, lastDisconnect = None, qr = None\<rparr>"

definition only_qr :: "string \<Rightarrow> ConnectionState" where
  "only_qr q = \<lparr>connection = None, lastDisconnect = None, qr = Some q\<rparr>"

definition qr_timeout :: js_error where
  "qr_timeout = Boom ''QR refs attempts ended'' 408"

definition logged_out :: js_error where
  "logged_out = Boom ''Connection Failure'' 401"

text \<open>One session \<open>x\<close>, just created.\<close>

definition one_session :: server where
  "one_session = run sample_world [PostCreate 0 None (Some ''x'')] sample_boot"

text \<open>Session \<open>x\<close> is created and its socket closes because nobody scanned the QR
  code: a reconnect is pending.\<close>

definition closed_once :: server where
  "closed_once = run sample_world [ConnectionUpdate 1 0 (closed_by qr_timeout)] one_session"

text \<open>The session is then deleted while the reconnect is pending.\<close>

definition deleted_while_pending :: server where
  "deleted_while_pending = run sample_world [DeleteSession None ''x''] closed_once"

text \<open>It is created again, the old reconnect fires, which opens a second socket for the
  same id, and the socket of the explicit create is logged out by the remote party.\<close>

definition logged_out_x :: server where
  "logged_out_x =
     run sample_world
       [PostCreate 2 None (Some ''x''), TimerFires 3 None ''x'',
        ConnectionUpdate 4 1 (closed_by logged_out)]
       deleted_while_pending"

text \<open>The default session shows a QR code, times out and reconnects.\<close>

definition default_reconnected :: server where
  "default_reconnected =
     run sample_world
       [Listen 0 None, ConnectionUpdate 1 0 (entered Connecting),
        ConnectionUpdate 2 0 (only_qr ''2@ABC''), ConnectionUpdate 3 0 (closed_by qr_timeout),
        TimerFires 4 None ''default'']
       sample_boot"

definition default_connecting :: server where
  "default_connecting =
     run sample_world [Listen 0 None, ConnectionUpdate 1 0 (entered Connecting)] sample_boot"

text \<open>A session that shows a QR code and waits for the scan.\<close>

definition qr_shown :: server where
  "qr_shown = run sample_world [ConnectionUpdate 1 0 (only_qr ''2@ABC'')] one_session"

text \<open>A session that is connected.\<close>

definition connected_x :: server where
  "connected_x = run sample_world [ConnectionUpdate 1 0 (entered Open)] one_session"

text \<open>A group notification: it comes from somebody else and has no message body.\<close>

definition stub_message :: WAMessage where
  "stub_message =
     \<lparr>key = \<lparr>remoteJid = Some ''123@g.us'', fromMe = Some False, key_id = Some ''A1''\<rparr>,
      message = None, messageTimestamp = Some 1700000000, pushName = Some ''Ann''\<rparr>"

definition text_message :: WAMessage where
  "text_message =
     \<lparr>key = \<lparr>remoteJid = Some ''123@s.whatsapp.net'', fromMe = Some False, key_id = Some ''A2''\<rparr>,
      message = Some ''hello'', messageTimestamp = Some 1700000001, pushName = Some ''Ann''\<rparr>"

definition own_message :: WAMessage where
  "own_message =
     \<lparr>key = \<lparr>remoteJid = Some ''123@s.whatsapp.net'', fromMe = Some True, key_id = Some ''A3''\<rparr>,
      message = Some ''hi'', messageTimestamp = Some 1700000002, pushName = None\<rparr>"

section \<open>Properties\<close>

subsection \<open>Effects and the dispatcher\<close>

lemma emit_fields [simp]:
  "sessions (emit e st) = sessions st"
  "heap (emit e st) = heap st"
  "next_ref (emit e st) = next_ref st"
  "sock_g (emit e st) = sock_g st"
  "qrCode_g (emit e st) = qrCode_g st"
  "connectionStatus (emit e st) = connectionStatus st"
  "WEBHOOK_url (emit e st) = WEBHOOK_url st"
  "WEBHOOK_secret (emit e st) = WEBHOOK_secret st"
  "timers (emit e st) = timers st"
  "effects (emit e st) = effects st @ [e]"
  by (simp_all add: emit_def)

text \<open>\<^verbatim>\<open>sendWebhook\<close> in closed form: one request, one log line, nothing thrown.\<close>

lemma sendWebhook_eq:
  "sendWebhook W now ev dat sid st =
     Inr (st\<lparr>effects := effects st @
            [request W now ev dat sid st, delivery_log W ev sid (length (effects st))]\<rparr>)"
  by (simp add: sendWebhook_def sendWebhook_try_def emit_def delivery_log_def request_def Let_def
      split: option.splits)

lemma posted_append: "posted (xs @ ys) = posted xs @ posted ys"
  by (induction xs rule: posted.induct) simp_all

lemma posted_request_log:
  "posted [request W now ev dat sid st, delivery_log W ev sid k] =
     [\<lparr>sessionId = sid, event = ev, data = dat, timestamp = toISOString W now\<rparr>]"
  by (simp add: request_def delivery_log_def split: option.splits)

text \<open>The MAC of the model against published digests: SHA-256 of \<open>abc\<close>
  (FIPS 180-4) and test case 2 of RFC 4231.\<close>

lemma sha256_abc:
  "hex (sha256 (bytes ''abc'')) =
     ''ba7816bf8f01cfea414140de5dae2223b00361a396177a9cb410ff61f20015ad''"
  by code_simp

lemma hmac_sha256_rfc4231_case2:
  "hmac_sha256_hex ''Jefe'' ''what do ya want for nothing?'' =
     ''5bdcc146bf60754e6a042426089575c75a003f089d2739839dec58b964ec3843''"
  by code_simp

lemma hmac_sha256_reference_body:
  "hmac_sha256_hex ''secret'' reference_body =
     ''a044c024ff4467b4e3fe907695e1e04571b54cab4180b5bcf5cbd5c20fa1ef10''"
  by code_simp

subsection \<open>initializeWhatsApp\<close>

lemma init_fails:
  "initializeWhatsApp now (Some e) sid st = Inl (e, emit (UseMultiFileAuthState (authFolder sid)) st)"
  by (simp add: initializeWhatsApp_def)

lemma init_succeeds:
  "\<exists>st'. initializeWhatsApp now None sid st = Inr (next_ref st, st')
     \<and> sessions st' = (sessions st)(sid \<mapsto> next_ref st)
     \<and> heap st' = (heap st)(next_ref st :=
          \<lparr>id_s = sid, sock = Some (next_ref st), qrCode = None, status = ''connecting'',
             createdAt = now\<rparr>)
     \<and> next_ref st' = Suc (next_ref st)
     \<and> timers st' = timers st
     \<and> qrCode_g st' = qrCode_g st
     \<and> connectionStatus st' = connectionStatus st
     \<and> effects st' = effects st @
          [UseMultiFileAuthState (authFolder sid), MakeWASocket (next_ref st) (authFolder sid)]"
  by (simp add: initializeWhatsApp_def Let_def)

lemma init_absent:
  assumes "sessions st k = None" and "k \<noteq> sid"
  shows "case initializeWhatsApp now fault sid st of
           Inl (e, st') \<Rightarrow> sessions st' k = None
         | Inr (n, st') \<Rightarrow> sessions st' k = None"
proof (cases fault)
  case None
  obtain st' where "initializeWhatsApp now None sid st = Inr (next_ref st, st')"
    and "sessions st' = (sessions st)(sid \<mapsto> next_ref st)"
    using init_succeeds [of now sid st] by blast
  with assms None show ?thesis by simp
next
  case (Some e)
  with assms show ?thesis by (simp add: init_fails)
qed

lemma init_keeps_qr_invariant:
  assumes "\<forall>r. qr_invariant (heap st r)"
  shows "case initializeWhatsApp now fault sid st of
           Inl (e, st') \<Rightarrow> (\<forall>r. qr_invariant (heap st' r))
         | Inr (n, st') \<Rightarrow> (\<forall>r. qr_invariant (heap st' r))"
proof (cases fault)
  case None
  obtain st' where "initializeWhatsApp now None sid st = Inr (next_ref st, st')"
    and "heap st' = (heap st)(next_ref st :=
          \<lparr>id_s = sid, sock = Some (next_ref st), qrCode = None, status = ''connecting'',
             createdAt = now\<rparr>)"
    using init_succeeds [of now sid st] by blast
  with assms None show ?thesis by (simp add: qr_invariant_def)
next
  case (Some e)
  with assms show ?thesis by (simp add: init_fails)
qed

subsection \<open>The connection.update handler\<close>

lemma connection_update_returns: "\<exists>st'. connection_update W now sid r u st = Inr st'"
  by (simp add: connection_update_def sendWebhook_eq Let_def
      split: option.splits WAConnectionState.splits)

lemma connection_update_sessions:
  "connection_update W now sid r u st = Inr st' \<Longrightarrow>
     sessions st' = sessions st \<or> sessions st' = (sessions st)(sid := None)"
  by (auto simp: connection_update_def sendWebhook_eq Let_def
      split: option.splits WAConnectionState.splits if_splits)

lemma connection_update_logout:
  assumes "connection u = Some Close"
    and "statusCode (lastDisconnect_error u) = Some (loggedOut W)"
  shows "\<exists>st'. connection_update W now sid r u st = Inr st'
      \<and> sessions st' = (sessions st)(sid := None)
      \<and> timers st' = timers st
      \<and> (\<exists>pre b hs lg. effects st' = pre @
           [AxiosPost (WEBHOOK_url st)
              \<lparr>sessionId = sid, event = ''disconnected'',
                 data = ReasonData (lastDisconnect_error u), timestamp = toISOString W now\<rparr>
              b hs 5000, lg])
      \<and> (\<forall>s d. SetTimeout s d \<notin> set (drop (length (effects st)) (effects st')))"
  using assms
  by (auto simp: connection_update_def sendWebhook_eq Let_def request_def delivery_log_def
      split: option.splits)


lemma connection_update_qr_invariant:
  "\<exists>st'. connection_update W now sid r u st = Inr st'
     \<and> (connection u = Some Open \<longrightarrow>
          status (heap st' r) = ''connected'' \<and> qrCode (heap st' r) = None)
     \<and> (qr_invariant (heap st r)
          \<and> \<not> (truthy (qr u) \<and> connection u = None \<and> status (heap st r) = ''connected'')
        \<longrightarrow> qr_invariant (heap st' r))
     \<and> (\<forall>r'. r' \<noteq> r \<longrightarrow> heap st' r' = heap st r')"
  by (auto simp: connection_update_def sendWebhook_eq Let_def qr_invariant_def truthy_def
      split: option.splits WAConnectionState.splits)

lemma connection_update_mirror:
  "\<exists>st'. connection_update W now ''default'' r u st = Inr st'
     \<and> (connectionStatus st = status (heap st r) \<longrightarrow> connectionStatus st' = status (heap st' r))
     \<and> (qrCode_g st = qrCode (heap st r) \<longrightarrow> qrCode_g st' = qrCode (heap st' r))
     \<and> (connection u \<noteq> None \<longrightarrow> connectionStatus st' = status (heap st' r))
     \<and> (truthy (qr u) \<or> connection u = Some Open \<longrightarrow> qrCode_g st' = qrCode (heap st' r))"
  by (auto simp: connection_update_def sendWebhook_eq Let_def truthy_def
      split: option.splits WAConnectionState.splits)

subsection \<open>The message handlers\<close>

lemma messages_upsert_posted:
  "\<exists>st'. messages_upsert W now sid ms st = Inr st'
     \<and> sessions st' = sessions st \<and> heap st' = heap st \<and> timers st' = timers st
     \<and> posted (effects st') = posted (effects st) @
         map (\<lambda>m. \<lparr>sessionId = sid, event = ''message'',
                    data = MessageData (key m) (message m) (messageTimestamp m) (pushName m),
                    timestamp = toISOString W now\<rparr>)
           (filter (\<lambda>m. fromMe (key m) \<noteq> Some True \<and> message m \<noteq> None) ms)"
proof (induction ms arbitrary: st)
  case Nil
  show ?case by simp
next
  case (Cons m ms)
  show ?case
  proof (cases "fromMe (key m) \<noteq> Some True \<and> message m \<noteq> None")
    case False
    with Cons.IH [of st] show ?thesis by auto
  next
    case True
    let ?st1 = "st\<lparr>effects := effects st @
       [request W now ''message''
          (MessageData (key m) (message m) (messageTimestamp m) (pushName m)) sid st,
        delivery_log W ''message'' sid (length (effects st))]\<rparr>"
    from Cons.IH [of ?st1] True show ?thesis
      by (auto simp: sendWebhook_eq posted_append posted_request_log)
  qed
qed

lemma messages_update_frame:
  "\<exists>st'. messages_update W now sid xs st = Inr st' \<and> sessions st' = sessions st
     \<and> heap st' = heap st \<and> timers st' = timers st"
proof (induction xs arbitrary: st)
  case Nil
  show ?case by simp
next
  case (Cons x xs)
  let ?st1 = "st\<lparr>effects := effects st @
       [request W now ''status'' (UpdateData x) sid st,
        delivery_log W ''status'' sid (length (effects st))]\<rparr>"
  from Cons.IH [of ?st1] show ?case
    by (auto simp: sendWebhook_eq)
qed

subsection \<open>Routes\<close>

lemma delete_session_absent:
  "sessions st k = None \<Longrightarrow> sessions (snd (delete_session logout sid st)) k = None"
  by (auto simp: delete_session_def Let_def split: option.splits)

lemma delete_session_frame:
  "heap (snd (delete_session logout sid st)) = heap st"
  "timers (snd (delete_session logout sid st)) = timers st"
  "next_ref (snd (delete_session logout sid st)) = next_ref st"
  by (auto simp: delete_session_def Let_def split: option.splits)

lemma register_webhook_frame:
  "sessions (snd (register_webhook u s st)) = sessions st"
  "heap (snd (register_webhook u s st)) = heap st"
  by (simp_all add: register_webhook_def Let_def)

subsection \<open>Runs\<close>

lemma step_absent:
  assumes "sessions st sid = None" and "\<not> initializes sid oc"
  shows "sessions (step W oc st) sid = None"
proof (cases oc)
  case (Listen now fault)
  with assms init_absent [of st sid "''default''" now fault] show ?thesis
    by (auto simp: step_def split: sum.splits)
next
  case (PostCreate now fault requested)
  let ?id = "case requested of Some s \<Rightarrow> s | None \<Rightarrow> ''session_'' @ decimal now"
  from assms PostCreate have "sid \<noteq> ?id" by simp
  with assms(1) init_absent [of st sid ?id now fault] PostCreate show ?thesis
    by (auto simp: step_def create_session_def Let_def split: sum.splits)
next
  case (DeleteSession logout k)
  with assms show ?thesis by (simp add: step_def delete_session_absent)
next
  case (RegisterWebhook u s)
  with assms show ?thesis by (simp add: step_def register_webhook_frame)
next
  case (ConnectionUpdate now r u)
  obtain st' where r: "connection_update W now (id_s (heap st r)) r u st = Inr st'"
    using connection_update_returns by blast
  from connection_update_sessions [OF r] assms(1) have "sessions st' sid = None" by auto
  with r ConnectionUpdate assms(1) show ?thesis by (simp add: step_def)
next
  case (MessagesUpsert now r ms)
  obtain st' where "messages_upsert W now (id_s (heap st r)) ms st = Inr st'"
    and "sessions st' = sessions st"
    using messages_upsert_posted by blast
  with MessagesUpsert assms(1) show ?thesis by (simp add: step_def)
next
  case (MessagesUpdate now r xs)
  obtain st' where "messages_update W now (id_s (heap st r)) xs st = Inr st'"
    and "sessions st' = sessions st"
    using messages_update_frame by blast
  with MessagesUpdate assms(1) show ?thesis by (simp add: step_def)
next
  case (TimerFires now fault k)
  with assms have ne: "sid \<noteq> k" by simp
  from assms(1) have "sessions (st\<lparr>timers := remove1 k (timers st)\<rparr>) sid = None" by simp
  from init_absent [OF this ne, of now fault] TimerFires assms(1) show ?thesis
    by (auto simp: step_def split: sum.splits)
qed

lemma run_absent:
  "sessions st sid = None \<Longrightarrow> \<forall>oc\<in>set ocs. \<not> initializes sid oc \<Longrightarrow>
     sessions (run W ocs st) sid = None"
proof (induction ocs arbitrary: st)
  case Nil
  then show ?case by simp
next
  case (Cons oc ocs)
  from Cons.prems have "sessions (step W oc st) sid = None"
    by (simp add: step_absent)
  with Cons show ?case by simp
qed

lemma timer_fires_reconnects:
  assumes "sid \<in> set (timers st)"
  shows "sessions (step W (TimerFires now None sid) st) sid = Some (next_ref st)
     \<and> heap (step W (TimerFires now None sid) st) (next_ref st) =
          \<lparr>id_s = sid, sock = Some (next_ref st), qrCode = None, status = ''connecting'',
             createdAt = now\<rparr>
     \<and> effects (step W (TimerFires now None sid) st) = effects st @
          [UseMultiFileAuthState (authFolder sid), MakeWASocket (next_ref st) (authFolder sid)]"
proof -
  let ?st0 = "st\<lparr>timers := remove1 sid (timers st)\<rparr>"
  obtain st' where "initializeWhatsApp now None sid ?st0 = Inr (next_ref ?st0, st')"
    and "sessions st' = (sessions ?st0)(sid \<mapsto> next_ref ?st0)"
    and "heap st' = (heap ?st0)(next_ref ?st0 :=
          \<lparr>id_s = sid, sock = Some (next_ref ?st0), qrCode = None, status = ''connecting'',
             createdAt = now\<rparr>)"
    and "effects st' = effects ?st0 @
          [UseMultiFileAuthState (authFolder sid), MakeWASocket (next_ref ?st0) (authFolder sid)]"
    using init_succeeds [of now sid ?st0] by blast
  with assms show ?thesis by (simp add: step_def)
qed

lemma timer_fires_fails:
  assumes "sid \<in> set (timers st)"
  shows "step W (TimerFires now (Some e) sid) st =
     st\<lparr>timers := remove1 sid (timers st),
        effects := effects st @ [UseMultiFileAuthState (authFolder sid), UnhandledRejection e]\<rparr>"
  using assms by (simp add: step_def init_fails emit_def)

lemma step_keeps_qr_invariant:
  assumes inv: "\<forall>r. qr_invariant (heap st r)" and ok: "\<not> qr_after_open st oc"
  shows "\<forall>r. qr_invariant (heap (step W oc st) r)"
proof (cases oc)
  case (Listen now fault)
  with init_keeps_qr_invariant [OF inv, of now fault "''default''"] show ?thesis
    by (auto simp: step_def split: sum.splits)
next
  case (PostCreate now fault requested)
  let ?id = "case requested of Some s \<Rightarrow> s | None \<Rightarrow> ''session_'' @ decimal now"
  from init_keeps_qr_invariant [OF inv, of now fault ?id] inv PostCreate show ?thesis
    by (auto simp: step_def create_session_def Let_def split: sum.splits)
next
  case (DeleteSession logout k)
  with inv show ?thesis by (simp add: step_def delete_session_frame)
next
  case (RegisterWebhook u s)
  with inv show ?thesis by (simp add: step_def register_webhook_frame)
next
  case (ConnectionUpdate now r u)
  show ?thesis
  proof (cases "r < next_ref st")
    case False
    with ConnectionUpdate inv show ?thesis by (simp add: step_def)
  next
    case True
    obtain st' where eq: "connection_update W now (id_s (heap st r)) r u st = Inr st'"
      and keep: "qr_invariant (heap st r)
          \<and> \<not> (truthy (qr u) \<and> connection u = None \<and> status (heap st r) = ''connected'')
        \<longrightarrow> qr_invariant (heap st' r)"
      and others: "\<forall>r'. r' \<noteq> r \<longrightarrow> heap st' r' = heap st r'"
      using connection_update_qr_invariant [of W now "id_s (heap st r)" r u st] by blast
    from ok ConnectionUpdate True
    have "\<not> (truthy (qr u) \<and> connection u = None \<and> status (heap st r) = ''connected'')"
      by simp
    with keep inv have here: "qr_invariant (heap st' r)" by blast
    have "qr_invariant (heap st' r')" for r'
    proof (cases "r' = r")
      case True
      with here show ?thesis by simp
    next
      case False
      with others inv show ?thesis by simp
    qed
    with eq ConnectionUpdate True show ?thesis by (simp add: step_def)
  qed
next
  case (MessagesUpsert now r ms)
  obtain st' where "messages_upsert W now (id_s (heap st r)) ms st = Inr st'"
    and "heap st' = heap st"
    using messages_upsert_posted by blast
  with MessagesUpsert inv show ?thesis by (simp add: step_def)
next
  case (MessagesUpdate now r xs)
  obtain st' where "messages_update W now (id_s (heap st r)) xs st = Inr st'"
    and "heap st' = heap st"
    using messages_update_frame by blast
  with MessagesUpdate inv show ?thesis by (simp add: step_def)
next
  case (TimerFires now fault k)
  from inv have "\<forall>r. qr_invariant (heap (st\<lparr>timers := remove1 k (timers st)\<rparr>) r)" by simp
  from init_keeps_qr_invariant [OF this, of now fault k] inv TimerFires show ?thesis
    by (auto simp: step_def split: sum.splits)
qed

text \<open>The definitions that a concrete run unfolds to.\<close>

lemmas sample_defs =
  sample_world_def down_world_def reference_world_def sample_stringify_def sample_boot_def boot_def blank_def closed_by_def entered_def
  only_qr_def qr_timeout_def logged_out_def one_session_def closed_once_def
  deleted_while_pending_def logged_out_x_def default_reconnected_def default_connecting_def
  connected_x_def qr_shown_def get_qr_def get_session_qr_def stub_message_def text_message_def own_message_def
  step_def create_session_def delete_session_def initializeWhatsApp_def authFolder_def
  connection_update_def sendWebhook_eq request_def delivery_log_def
  truthy_def lastDisconnect_error_def Let_def

section \<open>The claims\<close>

subsection \<open>Terminal logout\<close>

text \<open>
  C1 (as amended).  A connection-close event whose reason code is the logged-out code
  makes the handler remove its session id from the registry and send a
  \<open>disconnected\<close> webhook with the reason; the handler schedules no reconnect and
  leaves the pending timers as they are.  From then on the id stays out of the registry
  for as long as nothing calls \<^verbatim>\<open>initializeWhatsApp\<close> for it: an explicit create, the
  start-up of the default session, or a reconnect timer of the same id.  Timers that
  were pending are not cancelled, and another socket of the same id can still schedule
  one.
\<close>

theorem logged_out_close_is_terminal:
  assumes "connection u = Some Close"
    and "statusCode (lastDisconnect_error u) = Some (loggedOut W)"
  shows "\<exists>st'. connection_update W now sid r u st = Inr st'
      \<and> sessions st' = (sessions st)(sid := None)
      \<and> timers st' = timers st
      \<and> (\<exists>pre b hs lg. effects st' = pre @
           [AxiosPost (WEBHOOK_url st)
              \<lparr>sessionId = sid, event = ''disconnected'',
                 data = ReasonData (lastDisconnect_error u), timestamp = toISOString W now\<rparr>
              b hs 5000, lg])
      \<and> (\<forall>s d. SetTimeout s d \<notin> set (drop (length (effects st)) (effects st')))
      \<and> (\<forall>ocs. (\<forall>oc\<in>set ocs. \<not> initializes sid oc) \<longrightarrow> sessions (run W ocs st') sid = None)"
proof -
  from connection_update_logout [OF assms, of now sid r st]
  obtain st' where eq: "connection_update W now sid r u st = Inr st'"
    and reg: "sessions st' = (sessions st)(sid := None)"
    and rest: "timers st' = timers st"
      "\<exists>pre b hs lg. effects st' = pre @
           [AxiosPost (WEBHOOK_url st)
              \<lparr>sessionId = sid, event = ''disconnected'',
                 data = ReasonData (lastDisconnect_error u), timestamp = toISOString W now\<rparr>
              b hs 5000, lg]"
      "\<forall>s d. SetTimeout s d \<notin> set (drop (length (effects st)) (effects st'))"
    by blast
  from reg have "sessions st' sid = None" by simp
  then have "\<forall>ocs. (\<forall>oc\<in>set ocs. \<not> initializes sid oc) \<longrightarrow> sessions (run W ocs st') sid = None"
    by (simp add: run_absent)
  with eq reg rest show ?thesis by blast
qed

theorem logged_out_close_is_terminal_witness:
  "connection (closed_by logged_out) = Some Close
   \<and> statusCode (lastDisconnect_error (closed_by logged_out)) = Some (loggedOut sample_world)
   \<and> sessions (state_of (connection_update sample_world 1 ''x'' 0 (closed_by logged_out) one_session))
        ''x'' = None
   \<and> timers (state_of (connection_update sample_world 1 ''x'' 0 (closed_by logged_out) one_session))
        = []
   \<and> sessions (run sample_world [ConnectionUpdate 2 0 (entered Open), DeleteSession None ''x'']
        (state_of (connection_update sample_world 1 ''x'' 0 (closed_by logged_out) one_session)))
        ''x'' = None"
proof -
  have h1: "connection (closed_by logged_out) = Some Close"
    by (simp add: closed_by_def)
  have h2: "statusCode (lastDisconnect_error (closed_by logged_out)) = Some (loggedOut sample_world)"
    by (simp add: closed_by_def logged_out_def lastDisconnect_error_def sample_world_def)
  from logged_out_close_is_terminal [OF h1 h2, of 1 "''x''" 0 one_session]
  obtain st' where eq: "connection_update sample_world 1 ''x'' 0 (closed_by logged_out) one_session = Inr st'"
    and reg: "sessions st' = (sessions one_session)(''x'' := None)"
    and tm: "timers st' = timers one_session"
    and later: "\<forall>ocs. (\<forall>oc\<in>set ocs. \<not> initializes ''x'' oc) \<longrightarrow>
                  sessions (run sample_world ocs st') ''x'' = None"
    by blast
  have t0: "timers one_session = []"
    by (simp add: sample_defs)
  have "\<forall>oc\<in>set [ConnectionUpdate 2 0 (entered Open), DeleteSession None ''x'']. \<not> initializes ''x'' oc"
    by simp
  with later
  have "sessions (run sample_world [ConnectionUpdate 2 0 (entered Open), DeleteSession None ''x''] st')
          ''x'' = None"
    by blast
  with h1 h2 eq reg tm t0 show ?thesis by simp
qed

text \<open>The id comes back without a create after the terminal close: the session was
  deleted while a reconnect was pending and created again, so that two sockets carry
  the id; the logout of one removes the registry entry, and the ordinary close of the
  other schedules the reconnect that inserts the id again.\<close>

theorem logged_out_id_reappears:
  "sessions logged_out_x ''x'' = None
   \<and> sessions (run sample_world
        [ConnectionUpdate 5 2 (closed_by qr_timeout), TimerFires 6 None ''x''] logged_out_x) ''x''
      = Some 3"
  by (simp add: sample_defs)

subsection \<open>Reconnect after any other close\<close>




subsection \<open>Deletion and a pending reconnect\<close>

text \<open>
  C3 (as amended).  A delete whose logout does not throw removes the registry entry of
  the id and answers success, but it neither marks the record as closing nor cancels a
  pending reconnect: the session objects and the pending timers are left as they are
  (also when the logout throws).  A controller-scheduled reconnect of the same id that
  fires after the deletion puts, when the transport can be set up, a fresh record in
  status \<open>connecting\<close> into the registry under that id; when the set-up throws,
  nothing is inserted and the id stays absent.
\<close>

theorem delete_keeps_pending_reconnect:
  assumes "sessions st sid = Some r" and "sock (heap st r) = Some s"
  shows "fst (delete_session None sid st) = (200, SuccessBody)
     \<and> sessions (snd (delete_session None sid st)) = (sessions st)(sid := None)
     \<and> timers (snd (delete_session logout sid st)) = timers st
     \<and> heap (snd (delete_session logout sid st)) = heap st
     \<and> (sid \<in> set (timers st) \<longrightarrow>
          sessions (step W (TimerFires now None sid) (snd (delete_session None sid st))) sid
            = Some (next_ref st)
        \<and> heap (step W (TimerFires now None sid) (snd (delete_session None sid st))) (next_ref st)
            = \<lparr>id_s = sid, sock = Some (next_ref st), qrCode = None, status = ''connecting'',
                 createdAt = now\<rparr>
        \<and> (\<forall>e. sessions (step W (TimerFires now (Some e) sid) (snd (delete_session None sid st)))
                  sid = None))"
proof -
  let ?d = "snd (delete_session None sid st)"
  from assms have a: "fst (delete_session None sid st) = (200, SuccessBody)"
    and b: "sessions ?d = (sessions st)(sid := None)"
    by (simp_all add: delete_session_def Let_def)
  have fr: "timers (snd (delete_session logout sid st)) = timers st"
    "heap (snd (delete_session logout sid st)) = heap st"
    by (simp_all add: delete_session_frame)
  have fr0: "timers ?d = timers st" "heap ?d = heap st" "next_ref ?d = next_ref st"
    by (simp_all add: delete_session_frame)
  have c: "sessions (step W (TimerFires now None sid) ?d) sid = Some (next_ref st)
        \<and> heap (step W (TimerFires now None sid) ?d) (next_ref st)
            = \<lparr>id_s = sid, sock = Some (next_ref st), qrCode = None, status = ''connecting'',
                 createdAt = now\<rparr>
        \<and> (\<forall>e. sessions (step W (TimerFires now (Some e) sid) ?d) sid = None)"
    if "sid \<in> set (timers st)"
  proof -
    from that fr0 have pending: "sid \<in> set (timers ?d)" by simp
    from timer_fires_reconnects [OF pending, of W now] fr0
    have "sessions (step W (TimerFires now None sid) ?d) sid = Some (next_ref st)
        \<and> heap (step W (TimerFires now None sid) ?d) (next_ref st)
            = \<lparr>id_s = sid, sock = Some (next_ref st), qrCode = None, status = ''connecting'',
                 createdAt = now\<rparr>"
      by simp
    moreover have "\<forall>e. sessions (step W (TimerFires now (Some e) sid) ?d) sid = None"
      using timer_fires_fails [OF pending, of W now] b by simp
    ultimately show ?thesis by blast
  qed
  from a b fr c show ?thesis by blast
qed

theorem delete_keeps_pending_reconnect_witness:
  "sessions closed_once ''x'' = Some 0
   \<and> sock (heap closed_once 0) = Some 0
   \<and> ''x'' \<in> set (timers closed_once)
   \<and> sessions (snd (delete_session None ''x'' closed_once)) ''x'' = None
   \<and> timers (snd (delete_session None ''x'' closed_once)) = [''x'']
   \<and> sessions (step sample_world (TimerFires 9 None ''x'') (snd (delete_session None ''x'' closed_once)))
        ''x'' = Some 1
   \<and> status (heap (step sample_world (TimerFires 9 None ''x'')
        (snd (delete_session None ''x'' closed_once))) 1) = ''connecting''
   \<and> sessions (step sample_world (TimerFires 9 (Some (Error ''ENOSPC'')) ''x'')
        (snd (delete_session None ''x'' closed_once))) ''x'' = None"
proof -
  have h1: "sessions closed_once ''x'' = Some 0" and h2: "sock (heap closed_once 0) = Some 0"
    and t: "timers closed_once = [''x'']" and n: "next_ref closed_once = 1"
    by (simp_all add: sample_defs)
  from t have h3: "''x'' \<in> set (timers closed_once)" by simp
  from delete_keeps_pending_reconnect [OF h1 h2, of None sample_world 9] h3
  have "sessions (snd (delete_session None ''x'' closed_once)) = (sessions closed_once)(''x'' := None)"
    and "timers (snd (delete_session None ''x'' closed_once)) = timers closed_once"
    and "sessions (step sample_world (TimerFires 9 None ''x'')
          (snd (delete_session None ''x'' closed_once))) ''x'' = Some (next_ref closed_once)"
    and "heap (step sample_world (TimerFires 9 None ''x'')
          (snd (delete_session None ''x'' closed_once))) (next_ref closed_once)
          = \<lparr>id_s = ''x'', sock = Some (next_ref closed_once), qrCode = None,
               status = ''connecting'', createdAt = 9\<rparr>"
    and "sessions (step sample_world (TimerFires 9 (Some (Error ''ENOSPC'')) ''x'')
          (snd (delete_session None ''x'' closed_once))) ''x'' = None"
    by blast+
  with h1 h2 h3 t n show ?thesis by simp
qed

text \<open>The deleted id is back in the registry once the pending reconnect has fired.\<close>

theorem deleted_session_resurrected:
  "sessions closed_once ''x'' = Some 0
   \<and> sessions deleted_while_pending ''x'' = None
   \<and> sessions (run sample_world [TimerFires 9 None ''x''] deleted_while_pending) ''x'' = Some 1"
  by (simp add: sample_defs)

subsection \<open>Creating a session\<close>

text \<open>
  C4 (as amended).  Create answers 409 when the id is already in the registry and then
  changes nothing.  Otherwise, when the transport can be set up, it allocates a new
  session record whose status is \<open>connecting\<close>, stores it in the registry under the
  id and answers with the id, the literal status \<open>initializing\<close> and a creation
  time; the stored record never has the status \<open>initializing\<close>.  When the transport
  cannot be set up it answers 500 and the registry and the session objects stay as
  they were.
\<close>

theorem create_session_cases:
  assumes "sid = (case requested of Some s \<Rightarrow> s | None \<Rightarrow> ''session_'' @ decimal now)"
  shows "(sessions st sid \<noteq> None \<longrightarrow>
            create_session W now fault requested st =
              ((409, ErrorBody ''Session already exists''), st))
     \<and> (sessions st sid = None \<longrightarrow>
          (\<exists>st'. create_session W now None requested st =
                   ((200, CreatedBody sid ''initializing'' (toISOString W now)), st')
             \<and> sessions st' = (sessions st)(sid \<mapsto> next_ref st)
             \<and> heap st' = (heap st)(next_ref st :=
                  \<lparr>id_s = sid, sock = Some (next_ref st), qrCode = None, status = ''connecting'',
                     createdAt = now\<rparr>)))
     \<and> (sessions st sid = None \<longrightarrow>
          (\<exists>st'. create_session W now (Some e) requested st =
                   ((500, ErrorBody ''Failed to create session''), st')
             \<and> sessions st' = sessions st \<and> heap st' = heap st))"
proof (intro conjI impI)
  assume "sessions st sid \<noteq> None"
  with assms show "create_session W now fault requested st =
      ((409, ErrorBody ''Session already exists''), st)"
    by (auto simp: create_session_def Let_def)
next
  assume absent: "sessions st sid = None"
  obtain st' where "initializeWhatsApp now None sid st = Inr (next_ref st, st')"
    and "sessions st' = (sessions st)(sid \<mapsto> next_ref st)"
    and "heap st' = (heap st)(next_ref st :=
          \<lparr>id_s = sid, sock = Some (next_ref st), qrCode = None, status = ''connecting'',
             createdAt = now\<rparr>)"
    using init_succeeds [of now sid st] by blast
  with absent assms
  show "\<exists>st'. create_session W now None requested st =
                   ((200, CreatedBody sid ''initializing'' (toISOString W now)), st')
             \<and> sessions st' = (sessions st)(sid \<mapsto> next_ref st)
             \<and> heap st' = (heap st)(next_ref st :=
                  \<lparr>id_s = sid, sock = Some (next_ref st), qrCode = None, status = ''connecting'',
                     createdAt = now\<rparr>)"
    by (simp add: create_session_def Let_def)
next
  assume absent: "sessions st sid = None"
  with assms
  show "\<exists>st'. create_session W now (Some e) requested st =
                   ((500, ErrorBody ''Failed to create session''), st')
             \<and> sessions st' = sessions st \<and> heap st' = heap st"
    by (simp add: create_session_def Let_def init_fails)
qed

theorem create_session_cases_witness:
  "sessions one_session ''x'' = Some 0
   \<and> create_session sample_world 5 None (Some ''x'') one_session =
        ((409, ErrorBody ''Session already exists''), one_session)
   \<and> sessions sample_boot ''x'' = None
   \<and> fst (create_session sample_world 0 None (Some ''x'') sample_boot) =
        (200, CreatedBody ''x'' ''initializing'' (toISOString sample_world 0))
   \<and> sessions (snd (create_session sample_world 0 None (Some ''x'') sample_boot)) ''x'' = Some 0
   \<and> fst (create_session sample_world 0 (Some (Error ''ENOSPC'')) (Some ''x'') sample_boot) =
        (500, ErrorBody ''Failed to create session'')
   \<and> sessions (snd (create_session sample_world 0 (Some (Error ''ENOSPC'')) (Some ''x'') sample_boot))
        ''x'' = None"
proof -
  have present: "sessions one_session ''x'' = Some 0"
    by (simp add: sample_defs)
  have absent: "sessions sample_boot ''x'' = None" and n0: "next_ref sample_boot = 0"
    by (simp_all add: sample_defs)
  from create_session_cases [where sid = "''x''" and requested = "Some ''x''" and st = one_session
         and now = 5 and W = sample_world and fault = None] present
  have a: "create_session sample_world 5 None (Some ''x'') one_session =
        ((409, ErrorBody ''Session already exists''), one_session)"
    by simp
  from create_session_cases [where sid = "''x''" and requested = "Some ''x''" and st = sample_boot
         and now = 0 and W = sample_world] absent
  obtain st' where b: "create_session sample_world 0 None (Some ''x'') sample_boot =
        ((200, CreatedBody ''x'' ''initializing'' (toISOString sample_world 0)), st')"
    and b': "sessions st' = (sessions sample_boot)(''x'' \<mapsto> next_ref sample_boot)"
    by auto
  from create_session_cases [where sid = "''x''" and requested = "Some ''x''" and st = sample_boot
         and now = 0 and W = sample_world and e = "Error ''ENOSPC''"] absent
  obtain st'' where c: "create_session sample_world 0 (Some (Error ''ENOSPC'')) (Some ''x'') sample_boot =
        ((500, ErrorBody ''Failed to create session''), st'')"
    and c': "sessions st'' = sessions sample_boot"
    by auto
  from present a absent n0 b b' c c' show ?thesis by simp
qed

text \<open>The record that create stores has the status \<open>connecting\<close>.\<close>

theorem created_record_is_connecting:
  "sessions sample_boot ''x'' = None
   \<and> sessions (snd (create_session sample_world 0 None (Some ''x'') sample_boot)) ''x'' = Some 0
   \<and> status (heap (snd (create_session sample_world 0 None (Some ''x'') sample_boot)) 0)
        = ''connecting''
   \<and> status (heap (snd (create_session sample_world 0 None (Some ''x'') sample_boot)) 0)
        \<noteq> ''initializing''"
  by (simp add: sample_defs)

subsection \<open>Deleting a session\<close>

text \<open>
  C5 (as amended).  Delete answers 404 when the id is not in the registry and then
  changes nothing.  Otherwise it asks the socket of the record to log out.  When the
  logout succeeds, the record is removed from the registry and the answer is success.
  When the logout throws, the error is written to the console, the caller gets 500, and
  the record stays in the registry.
\<close>

theorem delete_session_cases:
  "(sessions st sid = None \<longrightarrow>
      delete_session logout sid st = ((404, ErrorBody ''Session not found''), st))
   \<and> (sessions st sid = Some r \<and> sock (heap st r) = Some s \<longrightarrow>
        delete_session None sid st =
          ((200, SuccessBody),
           st\<lparr>sessions := (sessions st)(sid := None), effects := effects st @ [Logout s]\<rparr>)
      \<and> delete_session (Some e) sid st =
          ((500, ErrorBody ''Failed to delete session''),
           st\<lparr>effects := effects st @ [Logout s, ConsoleError ''Error deleting session:'' e]\<rparr>))"
  by (simp add: delete_session_def emit_def Let_def)

theorem delete_session_cases_witness:
  "sessions connected_x ''y'' = None
   \<and> delete_session None ''y'' connected_x = ((404, ErrorBody ''Session not found''), connected_x)
   \<and> sessions connected_x ''x'' = Some 0
   \<and> sock (heap connected_x 0) = Some 0
   \<and> fst (delete_session None ''x'' connected_x) = (200, SuccessBody)
   \<and> sessions (snd (delete_session None ''x'' connected_x)) ''x'' = None
   \<and> fst (delete_session (Some (Boom ''Connection Closed'' 428)) ''x'' connected_x) =
        (500, ErrorBody ''Failed to delete session'')
   \<and> sessions (snd (delete_session (Some (Boom ''Connection Closed'' 428)) ''x'' connected_x)) ''x''
        = Some 0"
proof -
  have y: "sessions connected_x ''y'' = None"
    and x: "sessions connected_x ''x'' = Some 0" "sock (heap connected_x 0) = Some 0"
    by (simp_all add: sample_defs)
  from delete_session_cases [of connected_x "''y''" None] y
  have a: "delete_session None ''y'' connected_x = ((404, ErrorBody ''Session not found''), connected_x)"
    by simp
  from delete_session_cases [of connected_x "''x''" None 0 0 "Boom ''Connection Closed'' 428"] x
  have b: "delete_session None ''x'' connected_x =
          ((200, SuccessBody),
           connected_x\<lparr>sessions := (sessions connected_x)(''x'' := None),
                        effects := effects connected_x @ [Logout 0]\<rparr>)"
    and c: "delete_session (Some (Boom ''Connection Closed'' 428)) ''x'' connected_x =
          ((500, ErrorBody ''Failed to delete session''),
           connected_x\<lparr>effects := effects connected_x @
              [Logout 0, ConsoleError ''Error deleting session:'' (Boom ''Connection Closed'' 428)]\<rparr>)"
    by simp_all
  from y x a b c show ?thesis by simp
qed

text \<open>A logout that throws reaches the caller as a 500 and the record is not removed.\<close>

theorem failed_logout_keeps_record:
  "sessions connected_x ''x'' = Some 0
   \<and> fst (delete_session (Some (Boom ''Connection Closed'' 428)) ''x'' connected_x) =
        (500, ErrorBody ''Failed to delete session'')
   \<and> sessions (snd (delete_session (Some (Boom ''Connection Closed'' 428)) ''x'' connected_x)) ''x''
        = Some 0"
  by (simp add: sample_defs)

subsection \<open>The QR code and the connected status\<close>

text \<open>
  C6 (as amended).  Every transition to \<open>connected\<close> sets the QR code of the
  record to null.  The invariant that a record holds a QR code only while its status
  is not \<open>connected\<close> is kept, for all records, by every occurrence except one: a
  pairing artifact delivered, in an update without a connection state, to a socket
  whose record is already connected.  The handler stores that artifact without looking
  at the status.
\<close>

theorem qr_cleared_when_connected:
  "(r < next_ref st \<and> connection u = Some Open \<longrightarrow>
       status (heap (step W (ConnectionUpdate now r u) st) r) = ''connected''
     \<and> qrCode (heap (step W (ConnectionUpdate now r u) st) r) = None)
   \<and> ((\<forall>r'. qr_invariant (heap st r')) \<and> \<not> qr_after_open st oc \<longrightarrow>
        (\<forall>r'. qr_invariant (heap (step W oc st) r')))"
proof -
  have first: "status (heap (step W (ConnectionUpdate now r u) st) r) = ''connected''
     \<and> qrCode (heap (step W (ConnectionUpdate now r u) st) r) = None"
    if a: "r < next_ref st \<and> connection u = Some Open"
  proof -
    obtain st' where "connection_update W now (id_s (heap st r)) r u st = Inr st'"
      and "connection u = Some Open \<longrightarrow>
            status (heap st' r) = ''connected'' \<and> qrCode (heap st' r) = None"
      using connection_update_qr_invariant [of W now "id_s (heap st r)" r u st] by blast
    with a show ?thesis by (simp add: step_def)
  qed
  have second: "\<forall>r'. qr_invariant (heap (step W oc st) r')"
    if "(\<forall>r'. qr_invariant (heap st r')) \<and> \<not> qr_after_open st oc"
    using that step_keeps_qr_invariant [of st oc W] by blast
  from first second show ?thesis by blast
qed

theorem qr_cleared_when_connected_witness:
  "0 < next_ref qr_shown
   \<and> connection (entered Open) = Some Open
   \<and> qrCode (heap qr_shown 0) = Some ''2@ABC''
   \<and> status (heap (step sample_world (ConnectionUpdate 2 0 (entered Open)) qr_shown) 0) = ''connected''
   \<and> qrCode (heap (step sample_world (ConnectionUpdate 2 0 (entered Open)) qr_shown) 0) = None
   \<and> \<not> qr_after_open qr_shown (ConnectionUpdate 2 0 (only_qr ''2@DEF''))
   \<and> qrCode (heap (step sample_world (ConnectionUpdate 2 0 (only_qr ''2@DEF'')) qr_shown) 0)
        = Some ''2@DEF''
   \<and> status (heap (step sample_world (ConnectionUpdate 2 0 (only_qr ''2@DEF'')) qr_shown) 0)
        \<noteq> ''connected''"
proof -
  have h1: "0 < next_ref qr_shown \<and> connection (entered Open) = Some Open"
    by (simp add: sample_defs)
  have q0: "qrCode (heap qr_shown 0) = Some ''2@ABC''"
    by (simp add: sample_defs)
  have inv: "\<forall>r'. qr_invariant (heap qr_shown r')"
    by (simp add: sample_defs qr_invariant_def)
  have ok: "\<not> qr_after_open qr_shown (ConnectionUpdate 2 0 (only_qr ''2@DEF''))"
    by (simp add: sample_defs)
  have q: "qrCode (heap (step sample_world (ConnectionUpdate 2 0 (only_qr ''2@DEF'')) qr_shown) 0)
        = Some ''2@DEF''"
    by (simp add: sample_defs)
  from qr_cleared_when_connected [of 0 qr_shown "entered Open" sample_world 2] h1
  have a: "status (heap (step sample_world (ConnectionUpdate 2 0 (entered Open)) qr_shown) 0)
             = ''connected''
     \<and> qrCode (heap (step sample_world (ConnectionUpdate 2 0 (entered Open)) qr_shown) 0) = None"
    by blast
  from qr_cleared_when_connected
         [of 0 qr_shown "entered Open" sample_world 2 "ConnectionUpdate 2 0 (only_qr ''2@DEF'')"]
       inv ok
  have "qr_invariant (heap (step sample_world (ConnectionUpdate 2 0 (only_qr ''2@DEF'')) qr_shown) 0)"
    by blast
  with q
  have b: "status (heap (step sample_world (ConnectionUpdate 2 0 (only_qr ''2@DEF'')) qr_shown) 0)
        \<noteq> ''connected''"
    by (simp add: qr_invariant_def)
  from h1 q0 a ok q b show ?thesis by blast
qed

text \<open>A connected record can hold a QR code.\<close>

theorem qr_code_on_connected_record:
  "status (heap connected_x 0) = ''connected''
   \<and> qrCode (heap connected_x 0) = None
   \<and> status (heap (run sample_world [ConnectionUpdate 2 0 (only_qr ''2@ABC'')] connected_x) 0)
        = ''connected''
   \<and> qrCode (heap (run sample_world [ConnectionUpdate 2 0 (only_qr ''2@ABC'')] connected_x) 0)
        = Some ''2@ABC''"
  by (simp add: sample_defs)

subsection \<open>The webhook dispatcher\<close>

text \<open>
  C7.  Every call of \<^verbatim>\<open>sendWebhook\<close> builds the envelope
  \<open>{sessionId, event, data, timestamp}\<close> and posts it to the configured URL with a
  timeout of 5000 ms; the body that goes on the wire is the JSON text of the envelope,
  and the header \<open>x-webhook-signature\<close> is the hex HMAC-SHA256 of that same text
  under the configured secret.  For a known secret and payload the signature is the
  reference digest: the \<open>qr\<close> envelope of session \<open>s1\<close> under the secret
  \<open>secret\<close> is signed with the digest that an independent HMAC-SHA256
  implementation gives for that key and text, and the MAC of the model gives the
  digest of test case 2 of RFC 4231.
\<close>

theorem sendWebhook_envelope_signed:
  "(\<exists>lg. sendWebhook W now ev dat sid st =
     Inr (st\<lparr>effects := effects st @
       [AxiosPost (WEBHOOK_url st)
          \<lparr>sessionId = sid, event = ev, data = dat, timestamp = toISOString W now\<rparr>
          (stringify W \<lparr>sessionId = sid, event = ev, data = dat, timestamp = toISOString W now\<rparr>)
          [(''Content-Type'', ''application/json''),
           (''x-webhook-signature'',
            hmac_sha256_hex (WEBHOOK_secret st)
              (stringify W \<lparr>sessionId = sid, event = ev, data = dat, timestamp = toISOString W now\<rparr>))]
          5000,
        lg]\<rparr>))
   \<and> effects (state_of (sendWebhook reference_world 1704067200000 ''qr'' (QrData ''2@ABC'') ''s1''
        (boot ''http://consumer/hook'' ''secret''))) =
       [AxiosPost ''http://consumer/hook''
          \<lparr>sessionId = ''s1'', event = ''qr'', data = QrData ''2@ABC'',
             timestamp = ''2024-01-01T00:00:00.000Z''\<rparr>
          reference_body
          [(''Content-Type'', ''application/json''),
           (''x-webhook-signature'',
            ''a044c024ff4467b4e3fe907695e1e04571b54cab4180b5bcf5cbd5c20fa1ef10'')]
          5000,
        LoggerInfo ''qr'' ''s1'' ''Webhook sent successfully'']
   \<and> hmac_sha256_hex ''Jefe'' ''what do ya want for nothing?'' =
        ''5bdcc146bf60754e6a042426089575c75a003f089d2739839dec58b964ec3843''"
proof -
  have general: "\<exists>lg. sendWebhook W now ev dat sid st =
     Inr (st\<lparr>effects := effects st @
       [AxiosPost (WEBHOOK_url st)
          \<lparr>sessionId = sid, event = ev, data = dat, timestamp = toISOString W now\<rparr>
          (stringify W \<lparr>sessionId = sid, event = ev, data = dat, timestamp = toISOString W now\<rparr>)
          [(''Content-Type'', ''application/json''),
           (''x-webhook-signature'',
            hmac_sha256_hex (WEBHOOK_secret st)
              (stringify W \<lparr>sessionId = sid, event = ev, data = dat, timestamp = toISOString W now\<rparr>))]
          5000,
        lg]\<rparr>)"
    by (rule exI [of _ "delivery_log W ev sid (length (effects st))"])
       (simp add: sendWebhook_eq request_def)
  have clock: "toISOString reference_world t = ''2024-01-01T00:00:00.000Z''"
    and net: "network reference_world k = Response 200" for t k
    by (simp_all add: reference_world_def)
  have ser: "stringify reference_world
      \<lparr>sessionId = ''s1'', event = ''qr'', data = QrData ''2@ABC'',
         timestamp = ''2024-01-01T00:00:00.000Z''\<rparr> = reference_body"
    by (simp add: reference_world_def sample_stringify_def reference_body_def)
  have known: "effects (state_of (sendWebhook reference_world 1704067200000 ''qr'' (QrData ''2@ABC'')
        ''s1'' (boot ''http://consumer/hook'' ''secret''))) =
       [AxiosPost ''http://consumer/hook''
          \<lparr>sessionId = ''s1'', event = ''qr'', data = QrData ''2@ABC'',
             timestamp = ''2024-01-01T00:00:00.000Z''\<rparr>
          reference_body
          [(''Content-Type'', ''application/json''),
           (''x-webhook-signature'',
            ''a044c024ff4467b4e3fe907695e1e04571b54cab4180b5bcf5cbd5c20fa1ef10'')]
          5000,
        LoggerInfo ''qr'' ''s1'' ''Webhook sent successfully'']"
    by (simp add: sendWebhook_eq request_def delivery_log_def boot_def clock ser net
        hmac_sha256_reference_body)
  from general known hmac_sha256_rfc4231_case2 show ?thesis by blast
qed

text \<open>
  C8.  A call of \<^verbatim>\<open>sendWebhook\<close> never throws, whatever the event, the payload, the
  session id and the fate of the request.  It makes exactly one request; when that
  request fails (time-out, refused connection, an answer outside 2xx), the failure is
  logged and nothing else happens: no second request.
\<close>

theorem sendWebhook_never_throws:
  "\<exists>st'. sendWebhook W now ev dat sid st = Inr st'
     \<and> length (posted (effects st')) = Suc (length (posted (effects st)))
     \<and> (\<forall>e. axios_post (network W (length (effects st))) = Some e \<longrightarrow>
          effects st' = effects st @
            [request W now ev dat sid st, LoggerError e ev sid ''Failed to send webhook''])"
proof -
  let ?st' = "st\<lparr>effects := effects st @
            [request W now ev dat sid st, delivery_log W ev sid (length (effects st))]\<rparr>"
  have "sendWebhook W now ev dat sid st = Inr ?st'"
    by (rule sendWebhook_eq)
  moreover have "length (posted (effects ?st')) = Suc (length (posted (effects st)))"
    by (simp add: posted_append posted_request_log)
  moreover have "\<forall>e. axios_post (network W (length (effects st))) = Some e \<longrightarrow>
          effects ?st' = effects st @
            [request W now ev dat sid st, LoggerError e ev sid ''Failed to send webhook'']"
    by (simp add: delivery_log_def)
  ultimately show ?thesis by blast
qed

theorem sendWebhook_never_throws_witness:
  "axios_post (network down_world (length (effects sample_boot))) =
      Some (Error ''timeout of 5000ms exceeded'')
   \<and> effects (state_of (sendWebhook down_world 0 ''qr'' (QrData ''2@ABC'') ''x'' sample_boot)) =
       [request down_world 0 ''qr'' (QrData ''2@ABC'') ''x'' sample_boot,
        LoggerError (Error ''timeout of 5000ms exceeded'') ''qr'' ''x'' ''Failed to send webhook'']"
proof -
  have h: "axios_post (network down_world (length (effects sample_boot))) =
      Some (Error ''timeout of 5000ms exceeded'')"
    by (simp add: down_world_def)
  have e0: "effects sample_boot = []"
    by (simp add: sample_boot_def boot_def)
  from sendWebhook_never_throws [of down_world 0 "''qr''" "QrData ''2@ABC''" "''x''" sample_boot] h
  obtain st' where "sendWebhook down_world 0 ''qr'' (QrData ''2@ABC'') ''x'' sample_boot = Inr st'"
    and "effects st' = effects sample_boot @
       [request down_world 0 ''qr'' (QrData ''2@ABC'') ''x'' sample_boot,
        LoggerError (Error ''timeout of 5000ms exceeded'') ''qr'' ''x'' ''Failed to send webhook'']"
    by blast
  with h e0 show ?thesis by simp
qed

subsection \<open>Inbound messages\<close>

text \<open>
  C9 (as amended).  For every inbound-message event, each message that is not marked
  as sent by the session itself and that has a message body causes exactly one
  \<open>message\<close> webhook, carrying the key, the body, the timestamp and the display name
  of the sender, in the order of the event.  Messages sent by the session itself are
  not republished, and neither are messages without a body.
\<close>

theorem upsert_republishes_foreign_messages:
  "\<exists>st'. messages_upsert W now sid ms st = Inr st'
     \<and> posted (effects st') = posted (effects st) @
         map (\<lambda>m. \<lparr>sessionId = sid, event = ''message'',
                    data = MessageData (key m) (message m) (messageTimestamp m) (pushName m),
                    timestamp = toISOString W now\<rparr>)
           (filter (\<lambda>m. fromMe (key m) \<noteq> Some True \<and> message m \<noteq> None) ms)"
  using messages_upsert_posted [of W now sid ms st] by blast

theorem upsert_republishes_foreign_messages_witness:
  "posted (effects (state_of
      (messages_upsert sample_world 7 ''x'' [own_message, text_message, stub_message] one_session))) =
     [\<lparr>sessionId = ''x'', event = ''message'',
       data = MessageData (key text_message) (Some ''hello'') (Some 1700000001) (Some ''Ann''),
       timestamp = toISOString sample_world 7\<rparr>]"
proof -
  have p0: "posted (effects one_session) = []"
    by (simp add: sample_defs)
  from upsert_republishes_foreign_messages
         [of sample_world 7 "''x''" "[own_message, text_message, stub_message]" one_session]
  obtain st' where
    "messages_upsert sample_world 7 ''x'' [own_message, text_message, stub_message] one_session
       = Inr st'"
    and "posted (effects st') = posted (effects one_session) @
         map (\<lambda>m. \<lparr>sessionId = ''x'', event = ''message'',
                    data = MessageData (key m) (message m) (messageTimestamp m) (pushName m),
                    timestamp = toISOString sample_world 7\<rparr>)
           (filter (\<lambda>m. fromMe (key m) \<noteq> Some True \<and> message m \<noteq> None)
              [own_message, text_message, stub_message])"
    by blast
  with p0 show ?thesis
    by (simp add: own_message_def text_message_def stub_message_def)
qed

text \<open>A message from somebody else that has no body is not republished.\<close>

theorem foreign_message_without_body_dropped:
  "fromMe (key stub_message) = Some False
   \<and> posted (effects one_session) = []
   \<and> posted (effects (state_of (messages_upsert sample_world 7 ''x'' [stub_message] one_session)))
       = []"
  by (simp add: sample_defs)

subsection \<open>The legacy globals\<close>

text \<open>
  C10 (as amended).  The \<^verbatim>\<open>connection.update\<close> handler of a socket of the session
  \<open>default\<close> repeats in the legacy globals every write that it makes to its own
  session record: where the global status, or the global QR code, agreed with the
  record before the handler ran, it agrees afterwards; after an update that carries a
  connection state the global status equals the status of the record; after an update
  that carries a QR code or opens the connection the global QR code equals the QR code
  of the record.  The record that \<^verbatim>\<open>initializeWhatsApp\<close> creates is not copied to
  the globals, so that after a reconnect they can differ from the record in the
  registry.
\<close>

theorem default_handler_mirrors_its_writes:
  "\<exists>st'. connection_update W now ''default'' r u st = Inr st'
     \<and> (connectionStatus st = status (heap st r) \<longrightarrow> connectionStatus st' = status (heap st' r))
     \<and> (qrCode_g st = qrCode (heap st r) \<longrightarrow> qrCode_g st' = qrCode (heap st' r))
     \<and> (connection u \<noteq> None \<longrightarrow> connectionStatus st' = status (heap st' r))
     \<and> (truthy (qr u) \<or> connection u = Some Open \<longrightarrow> qrCode_g st' = qrCode (heap st' r))"
  by (rule connection_update_mirror)

theorem default_handler_mirrors_its_writes_witness:
  "connectionStatus default_connecting = status (heap default_connecting 0)
   \<and> qrCode_g default_connecting = qrCode (heap default_connecting 0)
   \<and> truthy (qr (only_qr ''2@ABC''))
   \<and> connectionStatus (state_of (connection_update sample_world 2 ''default'' 0 (only_qr ''2@ABC'')
        default_connecting)) = ''connecting''
   \<and> status (heap (state_of (connection_update sample_world 2 ''default'' 0 (only_qr ''2@ABC'')
        default_connecting)) 0) = ''connecting''
   \<and> qrCode_g (state_of (connection_update sample_world 2 ''default'' 0 (only_qr ''2@ABC'')
        default_connecting)) = Some ''2@ABC''
   \<and> qrCode (heap (state_of (connection_update sample_world 2 ''default'' 0 (only_qr ''2@ABC'')
        default_connecting)) 0) = Some ''2@ABC''"
proof -
  have h1: "connectionStatus default_connecting = status (heap default_connecting 0)"
    and h2: "qrCode_g default_connecting = qrCode (heap default_connecting 0)"
    and h3: "truthy (qr (only_qr ''2@ABC''))"
    by (simp_all add: sample_defs)
  from default_handler_mirrors_its_writes [of sample_world 2 0 "only_qr ''2@ABC''" default_connecting]
    h1 h2 h3
  obtain st' where eq: "connection_update sample_world 2 ''default'' 0 (only_qr ''2@ABC'')
        default_connecting = Inr st'"
    and s: "connectionStatus st' = status (heap st' 0)"
    and q: "qrCode_g st' = qrCode (heap st' 0)"
    by blast
  have "connectionStatus (state_of (connection_update sample_world 2 ''default'' 0
          (only_qr ''2@ABC'') default_connecting)) = ''connecting''"
    and "qrCode_g (state_of (connection_update sample_world 2 ''default'' 0
          (only_qr ''2@ABC'') default_connecting)) = Some ''2@ABC''"
    by (simp_all add: sample_defs)
  with eq s q h1 h2 h3 show ?thesis by simp
qed

text \<open>After the default session has shown a QR code, timed out and reconnected, the
  first event of the new socket leaves the old QR code in the global while the record in
  the registry has none: the legacy \<^verbatim>\<open>/qr\<close> still answers with the old code.\<close>

theorem stale_global_qr_after_reconnect:
  "sessions (run sample_world [ConnectionUpdate 5 1 (entered Connecting)] default_reconnected)
      ''default'' = Some 1
   \<and> qrCode (heap (run sample_world [ConnectionUpdate 5 1 (entered Connecting)] default_reconnected) 1)
      = None
   \<and> qrCode_g (run sample_world [ConnectionUpdate 5 1 (entered Connecting)] default_reconnected)
      = Some ''2@ABC''
   \<and> get_qr (run sample_world [ConnectionUpdate 5 1 (entered Connecting)] default_reconnected)
      = (200, QrBody ''2@ABC'')
   \<and> get_session_qr ''default''
        (run sample_world [ConnectionUpdate 5 1 (entered Connecting)] default_reconnected)
      = (404, ErrorBody ''No QR code available'')"
  by (simp add: sample_defs)

end
